theory Spec2Isabelle
  imports Main
begin

section \<open>The Claude Code host middleware of concerto-lang\<close>

text \<open>
  A shallow embedding of \<^verbatim>\<open>src/agents/claude_code/claude_code_host.py\<close>.
  The class \<^verbatim>\<open>ClaudeCodeHost\<close> becomes functions over an explicit state;
  the standard input, the clock and the external agent process are part of that state or
  parameters, and every message written by \<^verbatim>\<open>emit\<close> is appended to a list.

  Python strings are Isabelle strings: a \<^typ>\<open>char\<close> stands for a code point below
  256, so the model covers texts over that alphabet. The diagnostic channel
  (\<^verbatim>\<open>self.log\<close>, standard error) is not part of the model: it never
  touches standard output or the host's fields. Limits of the interpreter (recursion
  depth, memory, the digit limit of integer conversion) are not modelled either.
\<close>

subsection \<open>Python's string operations\<close>

text \<open>\<^verbatim>\<open>str.isspace\<close> for one character, as used by \<^verbatim>\<open>str.strip()\<close>.\<close>

definition is_space :: "char \<Rightarrow> bool" where
  "is_space c =
     (let n = (of_char c :: nat)
      in (9 \<le> n \<and> n \<le> 13) \<or> (28 \<le> n \<and> n \<le> 32) \<or> n = 133 \<or> n = 160)"

definition py_strip :: "string \<Rightarrow> string" where
  "py_strip s = rev (dropWhile is_space (rev (dropWhile is_space s)))"

definition lower_char :: "char \<Rightarrow> char" where
  "lower_char c =
     (let n = (of_char c :: nat)
      in if (65 \<le> n \<and> n \<le> 90) \<or> (192 \<le> n \<and> n \<le> 222 \<and> n \<noteq> 215)
         then char_of (n + 32) else c)"

definition py_lower :: "string \<Rightarrow> string" where
  "py_lower s = map lower_char s"

text \<open>\<^verbatim>\<open>sep.join(parts)\<close>.\<close>

fun py_join :: "string \<Rightarrow> string list \<Rightarrow> string" where
  "py_join sep [] = []"
| "py_join sep [x] = x"
| "py_join sep (x # y # ys) = x @ sep @ py_join sep (y # ys)"

text \<open>\<^verbatim>\<open>text.replace("\n", " ")\<close>.\<close>

definition newlines_to_spaces :: "string \<Rightarrow> string" where
  "newlines_to_spaces s = map (\<lambda>c. if c = CHR 0x0A then CHR '' '' else c) s"

text \<open>\<^verbatim>\<open>pat in text\<close> for strings: \<open>pat\<close> occurs as a contiguous piece.\<close>

fun starts_with :: "string \<Rightarrow> string \<Rightarrow> bool" where
  "starts_with [] s = True"
| "starts_with (p # ps) [] = False"
| "starts_with (p # ps) (c # cs) = (p = c \<and> starts_with ps cs)"

fun py_in :: "string \<Rightarrow> string \<Rightarrow> bool" where
  "py_in pat [] = (pat = [])"
| "py_in pat (c # cs) = (starts_with pat (c # cs) \<or> py_in pat cs)"

text \<open>
  \<^verbatim>\<open>text.replace(pat, rep)\<close> for a non-empty \<open>pat\<close>: occurrences are replaced
  from left to right without overlap. The counter is the number of characters of a
  matched occurrence that are still to be skipped.
\<close>

fun replace_from :: "string \<Rightarrow> string \<Rightarrow> nat \<Rightarrow> string \<Rightarrow> string" where
  "replace_from pat rep n [] = []"
| "replace_from pat rep (Suc n) (c # cs) = replace_from pat rep n cs"
| "replace_from pat rep 0 (c # cs) =
     (if starts_with pat (c # cs) then rep @ replace_from pat rep (length pat - 1) cs
      else c # replace_from pat rep 0 cs)"

definition py_replace :: "string \<Rightarrow> string \<Rightarrow> string \<Rightarrow> string" where
  "py_replace pat rep s = replace_from pat rep 0 s"

text \<open>
  \<^verbatim>\<open>str.splitlines()\<close>: a line ends at \<^verbatim>\<open>\n\<close>, \<^verbatim>\<open>\r\<close>,
  \<^verbatim>\<open>\r\n\<close>, \<^verbatim>\<open>\v\<close>, \<^verbatim>\<open>\f\<close>, the separators 0x1C to 0x1E and
  0x85; the terminators are dropped and a trailing terminator opens no further line.
\<close>

definition is_linebreak :: "char \<Rightarrow> bool" where
  "is_linebreak c =
     (let n = (of_char c :: nat)
      in (10 \<le> n \<and> n \<le> 13) \<or> (28 \<le> n \<and> n \<le> 30) \<or> n = 133)"

fun splitlines_from :: "string \<Rightarrow> string \<Rightarrow> string list" where
  "splitlines_from cur [] = (if cur = [] then [] else [cur])"
| "splitlines_from cur [c] =
     (if is_linebreak c then [cur] else [cur @ [c]])"
| "splitlines_from cur (c # d # cs) =
     (if c = CHR 0x0D \<and> d = CHR 0x0A then cur # splitlines_from [] cs
      else if is_linebreak c then cur # splitlines_from [] (d # cs)
      else splitlines_from (cur @ [c]) (d # cs))"

definition py_splitlines :: "string \<Rightarrow> string list" where
  "py_splitlines s = splitlines_from [] s"

text \<open>Decimal rendering of integers, as \<^verbatim>\<open>str(n)\<close> and f-strings do.\<close>

definition digit_char :: "nat \<Rightarrow> char" where
  "digit_char d = char_of (48 + d)"

fun str_nat :: "nat \<Rightarrow> string" where
  "str_nat n = (if n < 10 then [digit_char n] else str_nat (n div 10) @ [digit_char (n mod 10)])"

declare str_nat.simps [simp del]

definition str_int :: "int \<Rightarrow> string" where
  "str_int i = (if i < 0 then CHR ''-'' # str_nat (nat (- i)) else str_nat (nat i))"

definition hex_char :: "nat \<Rightarrow> char" where
  "hex_char d = (if d < 10 then char_of (48 + d) else char_of (87 + d))"

subsection \<open>JSON values and Python's \<^verbatim>\<open>json\<close> module\<close>

text \<open>
  The values \<^verbatim>\<open>json.loads\<close> returns. A dictionary is an association list in
  insertion order with distinct keys; Python's \<^verbatim>\<open>None\<close> is \<open>JNull\<close>. A number
  with a fraction or an exponent is a float and is kept as its literal: the host never
  computes with it.
\<close>

datatype json =
    JNull
  | JBool bool
  | JInt int
  | JFloat string
  | JStr string
  | JArr "json list"
  | JObj "(string \<times> json) list"

text \<open>\<^verbatim>\<open>d.get(k)\<close>: the value, or \<^verbatim>\<open>None\<close> when the key is missing.\<close>

definition dict_get :: "(string \<times> json) list \<Rightarrow> string \<Rightarrow> json" where
  "dict_get d k = (case map_of d k of None \<Rightarrow> JNull | Some v \<Rightarrow> v)"

text \<open>\<^verbatim>\<open>k in d\<close>.\<close>

definition dict_has :: "(string \<times> json) list \<Rightarrow> string \<Rightarrow> bool" where
  "dict_has d k = (map_of d k \<noteq> None)"

text \<open>\<^verbatim>\<open>d[k] = v\<close>: a present key keeps its position, a new key goes last.\<close>

fun dict_set :: "string \<Rightarrow> json \<Rightarrow> (string \<times> json) list \<Rightarrow> (string \<times> json) list" where
  "dict_set k v [] = [(k, v)]"
| "dict_set k v (p # ps) = (if fst p = k then (k, v) # ps else p # dict_set k v ps)"

text \<open>
  \<^verbatim>\<open>json.loads\<close>, in two passes that each read their input once from left to
  right: the characters are grouped into tokens, and the tokens are assembled into a
  value with an explicit stack of the containers that are still open.
\<close>

datatype token = TLBrace | TRBrace | TLBracket | TRBracket | TColon | TComma | TScalar json

definition json_ws :: "char \<Rightarrow> bool" where
  "json_ws c = (c = CHR '' '' \<or> c = CHR 0x09 \<or> c = CHR 0x0A \<or> c = CHR 0x0D)"

definition punct :: "char \<Rightarrow> token option" where
  "punct c =
     (if c = CHR ''{'' then Some TLBrace
      else if c = CHR ''}'' then Some TRBrace
      else if c = CHR ''['' then Some TLBracket
      else if c = CHR '']'' then Some TRBracket
      else if c = CHR '':'' then Some TColon
      else if c = CHR '','' then Some TComma
      else None)"

definition is_digit :: "char \<Rightarrow> bool" where
  "is_digit c = (let n = (of_char c :: nat) in 48 \<le> n \<and> n \<le> 57)"

definition digits_value :: "string \<Rightarrow> nat" where
  "digits_value ds = foldl (\<lambda>acc c. 10 * acc + (of_char c - 48)) 0 ds"

text \<open>
  A number is a full match of
  \<^verbatim>\<open>-?(0|[1-9]\d*)(\.\d+)?([eE][-+]?\d+)?\<close>; without fraction and exponent it is
  an integer.
\<close>

definition scan_exponent :: "string \<Rightarrow> bool" where
  "scan_exponent r =
     (case r of
        [] \<Rightarrow> True
      | e # r1 \<Rightarrow>
          (e = CHR ''e'' \<or> e = CHR ''E'') \<and>
          (let r2 = (case r1 of [] \<Rightarrow> [] | g # r3 \<Rightarrow> if g = CHR ''-'' \<or> g = CHR ''+'' then r3 else r1)
           in r2 \<noteq> [] \<and> list_all is_digit r2))"

definition scan_number :: "string \<Rightarrow> json option" where
  "scan_number s =
     (let neg = (s \<noteq> [] \<and> hd s = CHR ''-'');
          s1 = (if neg then tl s else s);
          ds = takeWhile is_digit s1;
          r = dropWhile is_digit s1
      in if ds = [] \<or> (hd ds = CHR ''0'' \<and> tl ds \<noteq> []) then None
         else if r = [] then Some (JInt (if neg then - int (digits_value ds) else int (digits_value ds)))
         else if hd r = CHR ''.''
         then (let fs = takeWhile is_digit (tl r); r' = dropWhile is_digit (tl r)
               in if fs \<noteq> [] \<and> scan_exponent r' then Some (JFloat s) else None)
         else if scan_exponent r then Some (JFloat s) else None)"

definition scan_scalar :: "string \<Rightarrow> json option" where
  "scan_scalar s =
     (if s = ''null'' then Some JNull
      else if s = ''true'' then Some (JBool True)
      else if s = ''false'' then Some (JBool False)
      else if s = ''NaN'' \<or> s = ''Infinity'' \<or> s = ''-Infinity'' then Some (JFloat s)
      else scan_number s)"

definition unescape :: "char \<Rightarrow> char option" where
  "unescape c =
     (if c = CHR 0x22 \<or> c = CHR 0x5C \<or> c = CHR ''/'' then Some c
      else if c = CHR ''b'' then Some (CHR 0x08)
      else if c = CHR ''f'' then Some (CHR 0x0C)
      else if c = CHR ''n'' then Some (CHR 0x0A)
      else if c = CHR ''r'' then Some (CHR 0x0D)
      else if c = CHR ''t'' then Some (CHR 0x09)
      else None)"

definition hex_value :: "char \<Rightarrow> nat option" where
  "hex_value c =
     (let n = (of_char c :: nat)
      in if 48 \<le> n \<and> n \<le> 57 then Some (n - 48)
         else if 65 \<le> n \<and> n \<le> 70 then Some (n - 55)
         else if 97 \<le> n \<and> n \<le> 102 then Some (n - 87)
         else None)"

datatype lex_mode =
    Idle
  | Bare string
  | InStr string
  | InEsc string
  | InUni string nat nat

definition push_token :: "token \<Rightarrow> token list option \<Rightarrow> token list option" where
  "push_token t rest = map_option ((#) t) rest"

definition push_scalar :: "string \<Rightarrow> token list option \<Rightarrow> token list option" where
  "push_scalar lit rest =
     (case scan_scalar lit of None \<Rightarrow> None | Some v \<Rightarrow> push_token (TScalar v) rest)"

text \<open>
  In \<open>InUni acc k n\<close>, \<open>k\<close> hexadecimal digits of a \<^verbatim>\<open>\uXXXX\<close> escape have been
  read and \<open>n\<close> is their value. A string may not hold a raw control character.
\<close>

fun lex :: "lex_mode \<Rightarrow> string \<Rightarrow> token list option" where
  "lex Idle [] = Some []"
| "lex (Bare lit) [] = push_scalar lit (Some [])"
| "lex (InStr acc) [] = None"
| "lex (InEsc acc) [] = None"
| "lex (InUni acc k n) [] = None"
| "lex Idle (c # cs) =
     (if json_ws c then lex Idle cs
      else if c = CHR 0x22 then lex (InStr []) cs
      else case punct c of
             Some t \<Rightarrow> push_token t (lex Idle cs)
           | None \<Rightarrow> lex (Bare [c]) cs)"
| "lex (Bare lit) (c # cs) =
     (if json_ws c then push_scalar lit (lex Idle cs)
      else if c = CHR 0x22 then push_scalar lit (lex (InStr []) cs)
      else case punct c of
             Some t \<Rightarrow> push_scalar lit (push_token t (lex Idle cs))
           | None \<Rightarrow> lex (Bare (lit @ [c])) cs)"
| "lex (InStr acc) (c # cs) =
     (if c = CHR 0x22 then push_token (TScalar (JStr acc)) (lex Idle cs)
      else if c = CHR 0x5C then lex (InEsc acc) cs
      else if (of_char c :: nat) < 32 then None
      else lex (InStr (acc @ [c])) cs)"
| "lex (InEsc acc) (c # cs) =
     (if c = CHR ''u'' then lex (InUni acc 0 0) cs
      else case unescape c of
             None \<Rightarrow> None
           | Some d \<Rightarrow> lex (InStr (acc @ [d])) cs)"
| "lex (InUni acc k n) (c # cs) =
     (case hex_value c of
        None \<Rightarrow> None
      | Some h \<Rightarrow>
          if k = 3 then lex (InStr (acc @ [char_of (16 * n + h)])) cs
          else lex (InUni acc (Suc k) (16 * n + h)) cs)"

datatype frame = FArr "json list" | FObj "(string \<times> json) list" "string option"

datatype expect =
    WantValue
  | WantValueOrClose
  | WantKeyOrClose
  | WantKey
  | WantColon
  | WantSepOrClose
  | Finished json

text \<open>A complete value goes to the innermost open container, or is the result.\<close>

fun deliver :: "json \<Rightarrow> frame list \<Rightarrow> (expect \<times> frame list) option" where
  "deliver v [] = Some (Finished v, [])"
| "deliver v (FArr items # st) = Some (WantSepOrClose, FArr (items @ [v]) # st)"
| "deliver v (FObj d (Some k) # st) = Some (WantSepOrClose, FObj (dict_set k v d) None # st)"
| "deliver v (FObj d None # st) = None"

fun begin_value :: "token \<Rightarrow> frame list \<Rightarrow> (expect \<times> frame list) option" where
  "begin_value (TScalar v) st = deliver v st"
| "begin_value TLBracket st = Some (WantValueOrClose, FArr [] # st)"
| "begin_value TLBrace st = Some (WantKeyOrClose, FObj [] None # st)"
| "begin_value t st = None"

fun close_array :: "frame list \<Rightarrow> (expect \<times> frame list) option" where
  "close_array (FArr items # st) = deliver (JArr items) st"
| "close_array st = None"

fun close_object :: "frame list \<Rightarrow> (expect \<times> frame list) option" where
  "close_object (FObj d None # st) = deliver (JObj d) st"
| "close_object st = None"

fun take_key :: "token \<Rightarrow> frame list \<Rightarrow> (expect \<times> frame list) option" where
  "take_key (TScalar (JStr k)) (FObj d None # st) = Some (WantColon, FObj d (Some k) # st)"
| "take_key t st = None"

fun separator :: "frame list \<Rightarrow> (expect \<times> frame list) option" where
  "separator (FArr items # st) = Some (WantValue, FArr items # st)"
| "separator (FObj d ko # st) = Some (WantKey, FObj d ko # st)"
| "separator [] = None"

fun parse_step :: "expect \<Rightarrow> token \<Rightarrow> frame list \<Rightarrow> (expect \<times> frame list) option" where
  "parse_step WantValue t st = begin_value t st"
| "parse_step WantValueOrClose t st = (if t = TRBracket then close_array st else begin_value t st)"
| "parse_step WantKeyOrClose t st = (if t = TRBrace then close_object st else take_key t st)"
| "parse_step WantKey t st = take_key t st"
| "parse_step WantColon t st = (if t = TColon then Some (WantValue, st) else None)"
| "parse_step WantSepOrClose t st =
     (if t = TComma then separator st
      else if t = TRBracket then close_array st
      else if t = TRBrace then close_object st
      else None)"
| "parse_step (Finished v) t st = None"

fun parse_tokens :: "expect \<Rightarrow> frame list \<Rightarrow> token list \<Rightarrow> json option" where
  "parse_tokens e st [] = (case e of Finished v \<Rightarrow> Some v | _ \<Rightarrow> None)"
| "parse_tokens e st (t # ts) =
     (case parse_step e t st of
        None \<Rightarrow> None
      | Some (e', st') \<Rightarrow> parse_tokens e' st' ts)"

definition json_loads :: "string \<Rightarrow> json option" where
  "json_loads s = (case lex Idle s of None \<Rightarrow> None | Some ts \<Rightarrow> parse_tokens WantValue [] ts)"

text \<open>
  \<^verbatim>\<open>json.dumps\<close> with its default \<^verbatim>\<open>ensure_ascii\<close>: inside a string, the
  quote, the backslash and every character outside the range from the space to the tilde
  are escaped.
\<close>

definition escape_char :: "char \<Rightarrow> string" where
  "escape_char c =
     (let n = (of_char c :: nat)
      in if c = CHR 0x22 then [CHR 0x5C, CHR 0x22]
         else if c = CHR 0x5C then [CHR 0x5C, CHR 0x5C]
         else if c = CHR 0x0A then [CHR 0x5C, CHR ''n'']
         else if c = CHR 0x0D then [CHR 0x5C, CHR ''r'']
         else if c = CHR 0x09 then [CHR 0x5C, CHR ''t'']
         else if c = CHR 0x08 then [CHR 0x5C, CHR ''b'']
         else if c = CHR 0x0C then [CHR 0x5C, CHR ''f'']
         else if n < 32 \<or> 126 < n
         then [CHR 0x5C, CHR ''u'', CHR ''0'', CHR ''0'', hex_char (n div 16), hex_char (n mod 16)]
         else [c])"

definition dumps_string :: "string \<Rightarrow> string" where
  "dumps_string s = [CHR 0x22] @ concat (map escape_char s) @ [CHR 0x22]"

text \<open>
  \<open>json_dumps isep ksep\<close> is \<^verbatim>\<open>json.dumps(v, separators=(isep, ksep))\<close>; the
  defaults of Python are \<^verbatim>\<open>", "\<close> and \<^verbatim>\<open>": "\<close>.
\<close>

fun json_dumps :: "string \<Rightarrow> string \<Rightarrow> json \<Rightarrow> string" where
  "json_dumps isep ksep JNull = ''null''"
| "json_dumps isep ksep (JBool b) = (if b then ''true'' else ''false'')"
| "json_dumps isep ksep (JInt i) = str_int i"
| "json_dumps isep ksep (JFloat lit) = lit"
| "json_dumps isep ksep (JStr s) = dumps_string s"
| "json_dumps isep ksep (JArr xs) =
     ''['' @ py_join isep (map (json_dumps isep ksep) xs) @ '']''"
| "json_dumps isep ksep (JObj d) =
     ''{'' @ py_join isep (map (\<lambda>p. dumps_string (fst p) @ ksep @ json_dumps isep ksep (snd p)) d)
      @ ''}''"

text \<open>The order of \<^verbatim>\<open>sort_keys=True\<close>: strings compared by code point.\<close>

fun str_le :: "string \<Rightarrow> string \<Rightarrow> bool" where
  "str_le [] t = True"
| "str_le (c # cs) [] = False"
| "str_le (c # cs) (d # ds) =
     ((of_char c :: nat) < of_char d \<or> (c = d \<and> str_le cs ds))"

fun insert_item :: "string \<times> 'a \<Rightarrow> (string \<times> 'a) list \<Rightarrow> (string \<times> 'a) list" where
  "insert_item p [] = [p]"
| "insert_item p (q # qs) = (if str_le (fst p) (fst q) then p # q # qs else q # insert_item p qs)"

definition sort_items :: "(string \<times> 'a) list \<Rightarrow> (string \<times> 'a) list" where
  "sort_items d = foldr insert_item d []"

definition newline_indent :: "nat \<Rightarrow> string" where
  "newline_indent level = CHR 0x0A # replicate (2 * level) CHR '' ''"

text \<open>
  \<open>json_dumps_pretty 0\<close> is \<^verbatim>\<open>json.dumps(v, indent=2, sort_keys=True)\<close>; the
  argument is the nesting level of the value being written.
\<close>

fun json_dumps_pretty :: "nat \<Rightarrow> json \<Rightarrow> string" where
  "json_dumps_pretty level (JArr xs) =
     (if xs = [] then ''[]''
      else ''['' @ newline_indent (Suc level)
           @ py_join ('','' @ newline_indent (Suc level)) (map (json_dumps_pretty (Suc level)) xs)
           @ newline_indent level @ '']'')"
| "json_dumps_pretty level (JObj d) =
     (if d = [] then ''{}''
      else ''{'' @ newline_indent (Suc level)
           @ py_join ('','' @ newline_indent (Suc level))
               (map (\<lambda>p. dumps_string (fst p) @ '': '' @ snd p)
                  (sort_items (map (\<lambda>p. (fst p, json_dumps_pretty (Suc level) (snd p))) d)))
           @ newline_indent level @ ''}'')"
| "json_dumps_pretty level v = json_dumps '', '' '': '' v"

text \<open>
  \<^verbatim>\<open>str(v)\<close> of a parsed value, as an f-string renders it: a string is itself, any
  other value is its \<^verbatim>\<open>repr\<close>. A float is rendered by its literal.
\<close>

definition repr_char :: "char \<Rightarrow> char \<Rightarrow> string" where
  "repr_char q c =
     (let n = (of_char c :: nat)
      in if c = CHR 0x5C then [CHR 0x5C, CHR 0x5C]
         else if c = q then [CHR 0x5C, q]
         else if c = CHR 0x0A then [CHR 0x5C, CHR ''n'']
         else if c = CHR 0x0D then [CHR 0x5C, CHR ''r'']
         else if c = CHR 0x09 then [CHR 0x5C, CHR ''t'']
         else if n < 32 \<or> (127 \<le> n \<and> n \<le> 160) \<or> n = 173
         then [CHR 0x5C, CHR ''x'', hex_char (n div 16), hex_char (n mod 16)]
         else [c])"

definition repr_string :: "string \<Rightarrow> string" where
  "repr_string s =
     (let q = (if CHR 0x27 \<in> set s \<and> CHR 0x22 \<notin> set s then CHR 0x22 else CHR 0x27)
      in [q] @ concat (map (repr_char q) s) @ [q])"

fun py_repr :: "json \<Rightarrow> string" where
  "py_repr JNull = ''None''"
| "py_repr (JBool b) = (if b then ''True'' else ''False'')"
| "py_repr (JInt i) = str_int i"
| "py_repr (JFloat lit) =
     (if lit = ''NaN'' then ''nan'' else if lit = ''Infinity'' then ''inf''
      else if lit = ''-Infinity'' then ''-inf'' else lit)"
| "py_repr (JStr s) = repr_string s"
| "py_repr (JArr xs) = ''['' @ py_join '', '' (map py_repr xs) @ '']''"
| "py_repr (JObj d) =
     ''{'' @ py_join '', '' (map (\<lambda>p. repr_string (fst p) @ '': '' @ py_repr (snd p)) d) @ ''}''"

definition py_str :: "json \<Rightarrow> string" where
  "py_str v = (case v of JStr s \<Rightarrow> s | _ \<Rightarrow> py_repr v)"

text \<open>
  Truth value of a parsed value, as \<^verbatim>\<open>or\<close> tests it. A float is false when its
  mantissa has no digit other than zero.
\<close>

definition float_nonzero :: "string \<Rightarrow> bool" where
  "float_nonzero lit =
     list_ex (\<lambda>c. c \<noteq> CHR ''0'' \<and> c \<noteq> CHR ''.'' \<and> c \<noteq> CHR ''-'')
       (takeWhile (\<lambda>c. c \<noteq> CHR ''e'' \<and> c \<noteq> CHR ''E'') lit)"

fun py_bool :: "json \<Rightarrow> bool" where
  "py_bool JNull = False"
| "py_bool (JBool b) = b"
| "py_bool (JInt i) = (i \<noteq> 0)"
| "py_bool (JFloat lit) = float_nonzero lit"
| "py_bool (JStr s) = (s \<noteq> [])"
| "py_bool (JArr xs) = (xs \<noteq> [])"
| "py_bool (JObj d) = (d \<noteq> [])"

subsection \<open>Options, messages and the state of the host\<close>

record host_options =
  mode :: string
  interactive :: bool
  mock :: bool
  verbose :: bool
  claude_command :: string
  claude_args :: "string list"
  prompt_mode :: string
  timeout_secs :: int
  response_timeout_secs :: int
  history_turns :: int
  max_partials :: int
  carry_history :: bool

text \<open>
  One constructor for each \<^verbatim>\<open>type\<close> that \<^verbatim>\<open>emit\<close> is called with, carrying
  the keyword arguments of that call: \<open>Progress session stage message\<close>,
  \<open>Partial session chunk\<close>, \<open>Result session text elapsed_ms command\<close>,
  \<open>Error session message\<close> (the session is absent for an empty prompt),
  \<open>Question id question context options\<close>, \<open>Approval id description risk_level\<close>.
\<close>

datatype message =
    Progress nat string string
  | Partial nat string
  | Result nat string int string
  | Error "nat option" string
  | Question string string string "string list"
  | Approval string string string

text \<open>
  The fields of \<^verbatim>\<open>ClaudeCodeHost\<close> and its surroundings. A history entry is the pair
  of its \<^verbatim>\<open>prompt\<close> and \<^verbatim>\<open>result\<close>. \<open>stdin\<close> holds the lines still to come,
  each with the time in milliseconds a reader has to wait for it once the line before it
  has been taken; \<open>clock\<close> is the wall clock in milliseconds, advanced by every wait;
  \<open>select_works\<close> is false where \<^verbatim>\<open>select.select\<close> raises on standard input;
  \<open>stdout\<close> is what has been written so far.
\<close>

record host =
  session_counter :: nat
  history :: "(string \<times> string) list"
  stdin :: "(nat \<times> string) list"
  clock :: nat
  select_works :: bool
  stdout :: "message list"

text \<open>
  What \<^verbatim>\<open>subprocess.run\<close> meets for a command line and an input: a command that
  does not exist, any other fault of starting it, a process that exits after some
  milliseconds with a return code and its two outputs, or a process that never exits.
\<close>

datatype process =
    NotFound
  | Fault string
  | Exits nat int string string
  | Hangs

type_synonym agent = "string list \<Rightarrow> string option \<Rightarrow> process"

text \<open>An exception, with the text \<^verbatim>\<open>str(exc)\<close> gives.\<close>

datatype exn = RuntimeError string | OtherError string

fun exn_text :: "exn \<Rightarrow> string" where
  "exn_text (RuntimeError m) = m"
| "exn_text (OtherError m) = m"

definition emit :: "message \<Rightarrow> host \<Rightarrow> host" where
  "emit m st = st\<lparr>stdout := stdout st @ [m]\<rparr>"

definition initial_host :: "(nat \<times> string) list \<Rightarrow> nat \<Rightarrow> bool \<Rightarrow> host" where
  "initial_host lines t sel =
     \<lparr>session_counter = 0, history = [], stdin = lines, clock = t, select_works = sel,
      stdout = []\<rparr>"

text \<open>
  The options \<^verbatim>\<open>parse_args\<close> returns when no flag is given and no environment
  variable is set.
\<close>

definition default_options :: host_options where
  "default_options =
     \<lparr>mode = ''oneshot'', interactive = False, mock = False, verbose = False,
      claude_command = ''claude'', claude_args = [''--print''], prompt_mode = ''arg-last'',
      timeout_secs = 600, response_timeout_secs = 30, history_turns = 3, max_partials = 32,
      carry_history = True\<rparr>"

subsection \<open>The static helpers\<close>

definition try_parse_json :: "string \<Rightarrow> json" where
  "try_parse_json text = (case json_loads text of None \<Rightarrow> JNull | Some v \<Rightarrow> v)"

definition summarize :: "string \<Rightarrow> int \<Rightarrow> string" where
  "summarize text limit =
     (let t = py_strip (newlines_to_spaces text)
      in if int (length t) \<le> limit then t
         else take (nat (max 0 (limit - 3))) t @ ''...'')"

definition mock_output :: "string \<Rightarrow> string" where
  "mock_output prompt =
     (let task = summarize prompt 100
      in py_join [CHR 0x0A]
           [json_dumps '', '' '': ''
              (JObj [(''event'', JStr ''analysis''),
                     (''text'', JStr (''Planning implementation for task: '' @ task))]),
            json_dumps '', '' '': ''
              (JObj [(''event'', JStr ''edit''),
                     (''text'', JStr ''Would update source files and add/adjust tests.'')]),
            json_dumps '', '' '': ''
              (JObj [(''event'', JStr ''final''),
                     (''text'', JStr ''Mock Claude Code run completed successfully.'')])])"

text \<open>The loop of \<^verbatim>\<open>compact_values\<close>, with the list \<^verbatim>\<open>compact\<close> built so far.\<close>

fun compact_loop :: "string list \<Rightarrow> string list \<Rightarrow> string list" where
  "compact_loop compact [] = compact"
| "compact_loop compact (v # vs) =
     (if v = [] then compact_loop compact vs
      else if compact \<noteq> [] \<and> last compact = v then compact_loop compact vs
      else compact_loop (compact @ [v]) vs)"

definition compact_values :: "string list \<Rightarrow> string list" where
  "compact_values vs = compact_loop [] vs"

definition risk_keywords :: "string list" where
  "risk_keywords = [''rm -rf'', ''drop table'', ''delete'', ''destroy'', ''production'', ''migrate'',
                    ''rollback'', ''truncate'', ''sudo'']"

definition looks_high_risk :: "string \<Rightarrow> bool" where
  "looks_high_risk prompt = (let text = py_lower prompt in list_ex (\<lambda>keyword. py_in keyword text) risk_keywords)"

text \<open>
  \<^verbatim>\<open>if extracted:\<close> on a value that is a string or \<^verbatim>\<open>None\<close>.
\<close>

definition truthy :: "string option \<Rightarrow> bool" where
  "truthy r = (case r of None \<Rightarrow> False | Some s \<Rightarrow> s \<noteq> [])"

lemma size_dict_get: "size (dict_get d k) < Suc (size_list (size_prod (\<lambda>_. 0) size) d)"
  by (induction d) (auto simp: dict_get_def split: option.splits)

text \<open>
  \<^verbatim>\<open>extract_text\<close>; \<open>extract_keys\<close> is its loop over the four keys and
  \<open>extract_items\<close> its loop over the items of a list, with \<^verbatim>\<open>parts\<close> collected so
  far.
\<close>

function extract_text :: "json \<Rightarrow> string option"
  and extract_keys :: "(string \<times> json) list \<Rightarrow> string list \<Rightarrow> string option"
  and extract_items :: "json list \<Rightarrow> string list \<Rightarrow> string list"
where
  "extract_text (JStr s) = (let text = py_strip s in if text \<noteq> [] then Some text else None)"
| "extract_text (JObj d) =
     (case extract_keys d [''text'', ''completion'', ''delta'', ''output''] of
        Some extracted \<Rightarrow> Some extracted
      | None \<Rightarrow>
          (let message = extract_text (dict_get d ''message'')
           in if truthy message then message
              else (let content = extract_text (dict_get d ''content'')
                    in if truthy content then content else None)))"
| "extract_text (JArr xs) =
     (let parts = extract_items xs []
      in if parts \<noteq> [] then Some (py_join [CHR 0x0A] parts) else None)"
| "extract_text JNull = None"
| "extract_text (JBool b) = None"
| "extract_text (JInt i) = None"
| "extract_text (JFloat lit) = None"
| "extract_keys d [] = None"
| "extract_keys d (key # keys) =
     (let extracted = extract_text (dict_get d key)
      in if truthy extracted then extracted else extract_keys d keys)"
| "extract_items [] parts = parts"
| "extract_items (item # items) parts =
     (let extracted = extract_text item
      in if truthy extracted then extract_items items (parts @ [the extracted])
         else extract_items items parts)"
  by pat_completeness auto
termination
  apply (relation "measures
    [(\<lambda>x. case x of
             Inl v \<Rightarrow> 2 * size v
           | Inr (Inl (d, ks)) \<Rightarrow> Suc (2 * size_list (size_prod (\<lambda>_. 0) size) d)
           | Inr (Inr (xs, ps)) \<Rightarrow> Suc (2 * size_list size xs)),
     (\<lambda>x. case x of
             Inl v \<Rightarrow> 0
           | Inr (Inl (d, ks)) \<Rightarrow> Suc (length ks)
           | Inr (Inr (xs, ps)) \<Rightarrow> Suc (length xs))]")
  apply simp_all
  subgoal for d using size_dict_get [of d "''message''"] by simp
  subgoal for d using size_dict_get [of d "''content''"] by simp
  subgoal for d key using size_dict_get [of d key] by simp
  done

text \<open>
  \<^verbatim>\<open>parse_prompt_input\<close>: the prompt text and the context (\<^verbatim>\<open>None\<close> is \<open>JNull\<close>).
\<close>

definition parse_prompt_input :: "string \<Rightarrow> json \<Rightarrow> string \<times> json" where
  "parse_prompt_input line parsed =
     (case parsed of
        JObj d \<Rightarrow>
          if dict_has d ''prompt''
          then (let prompt_value = dict_get d ''prompt'';
                    prompt_text = (case prompt_value of
                                     JStr s \<Rightarrow> s
                                   | _ \<Rightarrow> json_dumps '','' '':'' prompt_value)
                in (prompt_text, dict_get d ''context''))
          else (line, JNull)
      | _ \<Rightarrow> (line, JNull))"

subsection \<open>The output parser\<close>

text \<open>
  \<^verbatim>\<open>parsed.get("type") or parsed.get("event") or parsed.get("kind") or "event"\<close>.
\<close>

definition event_name :: "(string \<times> json) list \<Rightarrow> json" where
  "event_name d =
     (if py_bool (dict_get d ''type'') then dict_get d ''type''
      else if py_bool (dict_get d ''event'') then dict_get d ''event''
      else if py_bool (dict_get d ''kind'') then dict_get d ''kind''
      else JStr ''event'')"

text \<open>The loop over the lines, with the two lists built so far.\<close>

fun parse_lines :: "string list \<Rightarrow> string list \<Rightarrow> string list \<Rightarrow> string list \<times> string list" where
  "parse_lines [] partials event_markers = (partials, event_markers)"
| "parse_lines (line # lines) partials event_markers =
     (case try_parse_json line of
        JObj d \<Rightarrow>
          (let extracted = extract_text (JObj d)
           in if truthy extracted then parse_lines lines (partials @ [the extracted]) event_markers
              else parse_lines lines partials
                     (event_markers @ [''claude:'' @ py_str (event_name d)]))
      | _ \<Rightarrow> parse_lines lines (partials @ [line]) event_markers)"

definition parse_claude_output :: "string \<Rightarrow> string \<times> string list \<times> string list" where
  "parse_claude_output out =
     (let lines = map py_strip (filter (\<lambda>line. py_strip line \<noteq> []) (py_splitlines out));
          collected = parse_lines lines [] [];
          partials = compact_values (fst collected);
          event_markers = compact_values (snd collected);
          joined = py_strip (py_join [CHR 0x0A] partials);
          fallback = (if joined = [] then py_strip out else joined);
          result_text = (if fallback = [] then ''Claude Code returned no output.'' else fallback)
      in (result_text, partials, event_markers))"

subsection \<open>The prompt composer and the history store\<close>

text \<open>\<^verbatim>\<open>xs[-n:]\<close> for a positive \<open>n\<close>.\<close>

definition last_n :: "nat \<Rightarrow> 'a list \<Rightarrow> 'a list" where
  "last_n n xs = drop (length xs - n) xs"

definition history_section :: "nat \<times> string \<times> string \<Rightarrow> string" where
  "history_section e =
     str_nat (fst e) @ ''. Prompt: '' @ fst (snd e) @ [CHR 0x0A] @ ''   Result: '' @ snd (snd e)"

definition compose_prompt :: "host_options \<Rightarrow> host \<Rightarrow> string \<Rightarrow> json \<Rightarrow> string \<Rightarrow> string" where
  "compose_prompt opts st prompt ctx supervisor_note =
     (let s1 = (if carry_history opts \<and> history st \<noteq> [] \<and> history_turns opts > 0
                then ''Recent middleware history:''
                     # map history_section
                         (enumerate 1 (last_n (nat (history_turns opts)) (history st)))
                else []);
          s2 = s1 @ [''Task:'' @ [CHR 0x0A] @ prompt];
          s3 = (if py_strip supervisor_note \<noteq> []
                then s2 @ [''Supervisor guidance:'' @ [CHR 0x0A] @ py_strip supervisor_note]
                else s2);
          s4 = (if ctx \<noteq> JNull
                then s3 @ [''Concerto context:'' @ [CHR 0x0A]
                           @ (case ctx of JStr t \<Rightarrow> t | _ \<Rightarrow> json_dumps_pretty 0 ctx)]
                else s3)
      in py_join [CHR 0x0A, CHR 0x0A] s4)"

definition record_history :: "host_options \<Rightarrow> string \<Rightarrow> string \<Rightarrow> host \<Rightarrow> host" where
  "record_history opts prompt result st =
     (if \<not> carry_history opts then st
      else (let appended = history st @ [(summarize prompt 300, summarize result 300)];
                max_entries = max 1 (history_turns opts * 2)
            in if int (length appended) > max_entries
               then st\<lparr>history := last_n (nat max_entries) appended\<rparr>
               else st\<lparr>history := appended\<rparr>))"

subsection \<open>The interactive mediator\<close>

text \<open>
  \<^verbatim>\<open>sys.stdin.readline()\<close>: blocks until the next line is there and takes it; the
  empty string at the end of the input.
\<close>

definition readline :: "host \<Rightarrow> string \<times> host" where
  "readline st =
     (case stdin st of
        [] \<Rightarrow> ([], st)
      | (d, line) # rest \<Rightarrow> (line, st\<lparr>stdin := rest, clock := clock st + d\<rparr>))"

text \<open>
  \<^verbatim>\<open>select.select\<close> on standard input with a timeout in seconds: ready when a line
  arrives before the timeout has passed, or at the end of the input; otherwise the
  timeout passes and the line is still to come.
\<close>

definition select_stdin :: "int \<Rightarrow> host \<Rightarrow> bool \<times> host" where
  "select_stdin timeout st =
     (case stdin st of
        [] \<Rightarrow> (True, st)
      | (d, line) # rest \<Rightarrow>
          if int d < timeout * 1000 then (True, st)
          else (False, st\<lparr>stdin := (d - nat (timeout * 1000), line) # rest,
                           clock := clock st + nat (timeout * 1000)\<rparr>))"

definition read_line_with_timeout :: "int \<Rightarrow> host \<Rightarrow> string option \<times> host" where
  "read_line_with_timeout timeout st =
     (if timeout \<le> 0
      then (let r = readline st in (if fst r \<noteq> [] then Some (fst r) else None, snd r))
      else (let sel = (if select_works st then select_stdin timeout st else (True, st))
            in if \<not> fst sel then (None, snd sel)
               else (let r = readline (snd sel)
                     in (if fst r \<noteq> [] then Some (fst r) else None, snd r))))"

definition read_response :: "host_options \<Rightarrow> string \<Rightarrow> host \<Rightarrow> string \<times> host" where
  "read_response opts dflt st =
     (let r = read_line_with_timeout (max 0 (response_timeout_secs opts)) st
      in case fst r of
           None \<Rightarrow> (dflt, snd r)
         | Some line \<Rightarrow>
             (case try_parse_json (py_strip line) of
                JObj d \<Rightarrow>
                  (let v1 = dict_get d ''value'';
                       v2 = (if v1 = JNull then dict_get d ''response'' else v1)
                   in if v2 = JNull then (dflt, snd r)
                      else (case v2 of
                              JStr t \<Rightarrow> (py_strip t, snd r)
                            | _ \<Rightarrow> (json_dumps '','' '':'' v2, snd r)))
              | _ \<Rightarrow>
                  (let stripped = py_strip line
                   in (if stripped \<noteq> [] then stripped else dflt, snd r))))"

definition request_question ::
  "host_options \<Rightarrow> string \<Rightarrow> string \<Rightarrow> string list \<Rightarrow> host \<Rightarrow> string \<times> host" where
  "request_question opts question ctx options st =
     read_response opts []
       (emit (Question (''session-'' @ str_nat (session_counter st) @ ''-question'')
                question ctx options) st)"

definition approval_words :: "string list" where
  "approval_words = [''y'', ''yes'', ''approve'', ''approved'', ''true'', ''1'', ''ok'', ''proceed'']"

definition request_approval :: "host_options \<Rightarrow> string \<Rightarrow> string \<Rightarrow> host \<Rightarrow> bool \<times> host" where
  "request_approval opts description risk_level st =
     (let r = read_response opts ''no''
                (emit (Approval (''session-'' @ str_nat (session_counter st) @ ''-approval'')
                         description risk_level) st);
          decision = py_lower (py_strip (fst r))
      in (decision \<in> set approval_words, snd r))"

subsection \<open>The agent invoker\<close>

definition build_command :: "host_options \<Rightarrow> string \<Rightarrow> string list \<times> string option" where
  "build_command opts prompt =
     (let args = claude_args opts
      in if list_ex (\<lambda>part. py_in ''{prompt}'' part) args
         then (claude_command opts # map (py_replace ''{prompt}'' prompt) args, None)
         else if prompt_mode opts = ''stdin''
         then (claude_command opts # args, Some (prompt @ [CHR 0x0A]))
         else if prompt_mode opts = ''json-stdin''
         then (claude_command opts # args,
               Some (json_dumps '', '' '': '' (JObj [(''prompt'', JStr prompt)]) @ [CHR 0x0A]))
         else (claude_command opts # (args @ [prompt]), None))"

text \<open>
  \<^verbatim>\<open>invoke_claude\<close>: \<open>Inl\<close> is the exception it raises, \<open>Inr\<close> the triple it
  returns. \<^verbatim>\<open>subprocess.run\<close> is given \<^verbatim>\<open>max(1, timeout_secs)\<close> seconds; a
  process that has not exited before that deadline is reported as timed out.
\<close>

definition invoke_claude ::
  "host_options \<Rightarrow> agent \<Rightarrow> string \<Rightarrow> host \<Rightarrow> (exn + string \<times> string \<times> string list) \<times> host" where
  "invoke_claude opts agent prompt st =
     (if mock opts then (Inr (mock_output prompt, [], [claude_command opts, ''<mock>'']), st)
      else (let cmd = build_command opts prompt;
                deadline = nat (max 1 (timeout_secs opts)) * 1000;
                timed_out = RuntimeError (''Claude command timed out after ''
                                          @ str_int (timeout_secs opts) @ ''s'')
            in case agent (fst cmd) (snd cmd) of
                 NotFound \<Rightarrow>
                   (Inl (RuntimeError (''Claude command not found: '' @ claude_command opts)), st)
               | Fault m \<Rightarrow> (Inl (OtherError m), st)
               | Hangs \<Rightarrow> (Inl timed_out, st\<lparr>clock := clock st + deadline\<rparr>)
               | Exits d returncode out err \<Rightarrow>
                   if deadline \<le> d then (Inl timed_out, st\<lparr>clock := clock st + deadline\<rparr>)
                   else if returncode \<noteq> 0
                   then (let stderr_text = py_strip err;
                             stdout_text = py_strip out;
                             detail = (if stderr_text \<noteq> [] then stderr_text
                                       else if stdout_text \<noteq> [] then stdout_text
                                       else ''exit code '' @ str_int returncode)
                         in (Inl (RuntimeError (''Claude command failed: '' @ detail)),
                             st\<lparr>clock := clock st + d\<rparr>))
                   else (Inr (out, err, fst cmd), st\<lparr>clock := clock st + d\<rparr>)))"

subsection \<open>The session engine\<close>

fun emit_markers :: "nat \<Rightarrow> string list \<Rightarrow> host \<Rightarrow> host" where
  "emit_markers session [] st = st"
| "emit_markers session (marker # markers) st =
     emit_markers session markers (emit (Progress session ''claude_event'' marker) st)"

text \<open>The loop over the partial chunks, with the number \<^verbatim>\<open>sent\<close> so far.\<close>

fun emit_partials :: "host_options \<Rightarrow> nat \<Rightarrow> nat \<Rightarrow> string list \<Rightarrow> host \<Rightarrow> host" where
  "emit_partials opts session sent [] st = st"
| "emit_partials opts session sent (chunk # chunks) st =
     (if max 0 (max_partials opts) \<le> int sent then st
      else if chunk = [] then emit_partials opts session sent chunks st
      else emit_partials opts session (Suc sent) chunks (emit (Partial session chunk) st))"

text \<open>
  \<^verbatim>\<open>process_prompt\<close> from the call of \<^verbatim>\<open>compose_prompt\<close> to its end. The result
  is the exception that left the method, if any, and the state.
\<close>

definition compose_and_invoke ::
  "host_options \<Rightarrow> agent \<Rightarrow> nat \<Rightarrow> string \<Rightarrow> json \<Rightarrow> nat \<Rightarrow> string \<Rightarrow> host \<Rightarrow> exn option \<times> host" where
  "compose_and_invoke opts agent session prompt ctx started_at supervisor_note st =
     (let composed_prompt = compose_prompt opts st prompt ctx supervisor_note;
          st1 = (if mode opts = ''stream''
                 then emit (Progress session ''invoke_claude'' ''Invoking Claude Code CLI'') st
                 else st);
          invoked = invoke_claude opts agent composed_prompt st1
      in case fst invoked of
           Inl exc \<Rightarrow> (Some exc, snd invoked)
         | Inr (raw_output, stderr_output, argv) \<Rightarrow>
             (let parsed = parse_claude_output raw_output;
                  result_text = fst parsed;
                  partials = fst (snd parsed);
                  event_markers = snd (snd parsed);
                  st2 = (if mode opts = ''stream''
                         then emit_partials opts session 0 partials
                                (emit_markers session event_markers (snd invoked))
                         else snd invoked);
                  elapsed_ms = int (clock st2) - int started_at;
                  st3 = emit (Result session result_text elapsed_ms
                                (if argv \<noteq> [] then hd argv else claude_command opts)) st2
              in (None, record_history opts prompt result_text st3)))"

text \<open>
  The first block of \<^verbatim>\<open>process_prompt\<close> that is guarded by stream mode and
  interactivity: the question for guidance and the progress message when there is an
  answer. The result is \<^verbatim>\<open>supervisor_note\<close> and the state.
\<close>

definition ask_guidance :: "host_options \<Rightarrow> nat \<Rightarrow> host \<Rightarrow> string \<times> host" where
  "ask_guidance opts session st =
     (if mode opts = ''stream'' \<and> interactive opts
      then (let q = request_question opts
                      ''Any extra implementation guidance before I run Claude Code?''
                      ''Reply with one short instruction, or leave empty.''
                      [''Proceed as-is'', ''Prioritize safety'', ''Prioritize speed'']
                      st
            in (fst q,
                if fst q \<noteq> []
                then emit (Progress session ''supervisor_guidance''
                             ''Applied supervisor guidance'') (snd q)
                else snd q))
      else ([], st))"

definition process_prompt ::
  "host_options \<Rightarrow> agent \<Rightarrow> nat \<Rightarrow> string \<Rightarrow> json \<Rightarrow> nat \<Rightarrow> host \<Rightarrow> exn option \<times> host" where
  "process_prompt opts agent session prompt ctx started_at st =
     (let st1 = (if mode opts = ''stream''
                 then emit (Progress session ''received_prompt''
                              ''Prompt received by claude_code middleware'') st
                 else st);
          asked = ask_guidance opts session st1;
          supervisor_note = fst asked
      in if mode opts = ''stream'' \<and> interactive opts \<and> looks_high_risk prompt
         then (let a = request_approval opts
                         (''High-risk task detected: '' @ summarize prompt 160) ''high'' (snd asked)
               in if \<not> fst a
                  then (None, emit (Error (Some session)
                                      ''Task rejected by supervisor approval handler'') (snd a))
                  else compose_and_invoke opts agent session prompt ctx started_at
                         supervisor_note (snd a))
         else compose_and_invoke opts agent session prompt ctx started_at
                supervisor_note (snd asked))"

text \<open>
  \<^verbatim>\<open>isinstance(parsed, dict) and parsed.get("type") == "response"\<close>.
\<close>

definition is_stray_response :: "json \<Rightarrow> bool" where
  "is_stray_response parsed =
     (case parsed of JObj d \<Rightarrow> dict_get d ''type'' = JStr ''response'' | _ \<Rightarrow> False)"

text \<open>
  The head of the loop body of \<^verbatim>\<open>run\<close>: a blank line and a stray response are
  skipped (\<^verbatim>\<open>continue\<close>) before any prompt is derived; for every other line the
  prompt and its context are derived by \<^verbatim>\<open>parse_prompt_input\<close>.
\<close>

definition derive_prompt :: "string \<Rightarrow> (string \<times> json) option" where
  "derive_prompt raw_line =
     (let line = py_strip raw_line
      in if line = [] then None
         else (let parsed = try_parse_json line
               in if is_stray_response parsed then None
                  else Some (parse_prompt_input line parsed)))"

text \<open>The body of the loop of \<^verbatim>\<open>run\<close> for one line read from standard input.\<close>

definition handle_line :: "host_options \<Rightarrow> agent \<Rightarrow> string \<Rightarrow> host \<Rightarrow> host" where
  "handle_line opts agent raw_line st =
     (case derive_prompt raw_line of
        None \<Rightarrow> st
      | Some (prompt, ctx) \<Rightarrow>
          if prompt = [] then emit (Error None ''received empty prompt'') st
          else (let st1 = st\<lparr>session_counter := session_counter st + 1\<rparr>;
                    session = session_counter st1;
                    started = clock st1;
                    outcome = process_prompt opts agent session prompt ctx started st1
                in case fst outcome of
                     None \<Rightarrow> snd outcome
                   | Some exc \<Rightarrow>
                       emit (Error (Some session) (''session failed: '' @ exn_text exc))
                         (snd outcome)))"

text \<open>
  Handling a line never puts lines back: what is still to come on standard input does not
  grow. This is what makes the loop of \<^verbatim>\<open>run\<close> end on a finite input.
\<close>

lemma stdin_emit: "stdin (emit m st) = stdin st"
  by (simp add: emit_def)

lemma stdin_readline: "length (stdin (snd (readline st))) \<le> length (stdin st)"
  by (simp add: readline_def split: list.splits prod.splits)

lemma stdin_select: "length (stdin (snd (select_stdin t st))) = length (stdin st)"
  by (simp add: select_stdin_def split: list.splits prod.splits)

lemma stdin_read_line_with_timeout:
  "length (stdin (snd (read_line_with_timeout t st))) \<le> length (stdin st)"
proof -
  have "length (stdin (snd (readline (snd (select_stdin t st))))) \<le> length (stdin st)"
    using stdin_readline [of "snd (select_stdin t st)"] stdin_select [of t st] by simp
  then show ?thesis
    using stdin_readline [of st] stdin_select [of t st]
    by (simp add: read_line_with_timeout_def Let_def)
qed

lemma stdin_read_response: "length (stdin (snd (read_response opts dflt st))) \<le> length (stdin st)"
  using stdin_read_line_with_timeout [of "max 0 (response_timeout_secs opts)" st]
  by (simp add: read_response_def Let_def split: option.splits json.splits)

lemma stdin_request_question:
  "length (stdin (snd (request_question opts q c os st))) \<le> length (stdin st)"
  using stdin_read_response [of opts "[]" "emit (Question (''session-'' @ str_nat (session_counter st) @ ''-question'') q c os) st"]
  by (simp add: request_question_def stdin_emit)

lemma stdin_request_approval:
  "length (stdin (snd (request_approval opts d r st))) \<le> length (stdin st)"
  using stdin_read_response [of opts "''no''" "emit (Approval (''session-'' @ str_nat (session_counter st) @ ''-approval'') d r) st"]
  by (simp add: request_approval_def Let_def stdin_emit)

lemma stdin_invoke_claude: "stdin (snd (invoke_claude opts agent p st)) = stdin st"
  by (simp add: invoke_claude_def Let_def split: process.splits)

lemma stdin_emit_markers: "stdin (emit_markers session ms st) = stdin st"
  by (induction ms arbitrary: st) (simp_all add: stdin_emit)

lemma stdin_emit_partials: "stdin (emit_partials opts session sent cs st) = stdin st"
  by (induction cs arbitrary: st sent) (simp_all add: stdin_emit)

lemma stdin_record_history: "stdin (record_history opts p r st) = stdin st"
  by (simp add: record_history_def Let_def)

lemma stdin_compose_and_invoke:
  "stdin (snd (compose_and_invoke opts agent session p c t note st)) = stdin st"
  by (simp add: compose_and_invoke_def Let_def stdin_emit stdin_invoke_claude stdin_emit_markers
      stdin_emit_partials stdin_record_history split: sum.splits prod.splits)

lemma stdin_ask_guidance:
  "length (stdin (snd (ask_guidance opts session st))) \<le> length (stdin st)"
  by (simp add: ask_guidance_def Let_def stdin_emit stdin_request_question)

lemma stdin_process_prompt:
  "length (stdin (snd (process_prompt opts agent session p c t st))) \<le> length (stdin st)"
proof -
  define st1 where "st1 = (if mode opts = ''stream''
                 then emit (Progress session ''received_prompt''
                              ''Prompt received by claude_code middleware'') st
                 else st)"
  define asked where "asked = ask_guidance opts session st1"
  define a where "a = request_approval opts
                         (''High-risk task detected: '' @ summarize p 160) ''high'' (snd asked)"
  have 1: "stdin st1 = stdin st"
    by (simp add: st1_def stdin_emit)
  have 2: "length (stdin (snd asked)) \<le> length (stdin st)"
    using stdin_ask_guidance [of opts session st1] by (simp add: asked_def 1)
  have 3: "length (stdin (snd a)) \<le> length (stdin st)"
    using stdin_request_approval [of opts _ _ "snd asked"] 2 unfolding a_def
    by (rule order_trans)
  have "process_prompt opts agent session p c t st =
     (if mode opts = ''stream'' \<and> interactive opts \<and> looks_high_risk p
      then (if \<not> fst a
            then (None, emit (Error (Some session)
                                ''Task rejected by supervisor approval handler'') (snd a))
            else compose_and_invoke opts agent session p c t (fst asked) (snd a))
      else compose_and_invoke opts agent session p c t (fst asked) (snd asked))"
    by (simp add: process_prompt_def Let_def st1_def asked_def a_def)
  then show ?thesis
    using 2 3 by (simp add: stdin_emit stdin_compose_and_invoke)
qed

lemma stdin_handle_line:
  "length (stdin (handle_line opts agent raw st)) \<le> length (stdin st)"
proof -
  have "length (stdin (snd (process_prompt opts agent session p c t
          (st\<lparr>session_counter := n\<rparr>)))) \<le> length (stdin st)" for session p c t n
    using stdin_process_prompt [of opts agent session p c t "st\<lparr>session_counter := n\<rparr>"] by simp
  then show ?thesis
    by (simp add: handle_line_def Let_def stdin_emit split: option.splits prod.splits)
qed

text \<open>
  \<^verbatim>\<open>run\<close>: the loop over the lines of standard input. Besides the final state the
  model returns, for every line the loop itself has read, the line and the messages written
  while it was handled.
\<close>

function run_loop :: "host_options \<Rightarrow> agent \<Rightarrow> host \<Rightarrow> (string \<times> message list) list \<times> host" where
  "run_loop opts agent st =
     (case stdin st of
        [] \<Rightarrow> ([], st)
      | (d, raw_line) # rest \<Rightarrow>
          (let st1 = st\<lparr>stdin := rest, clock := clock st + d\<rparr>;
               st2 = handle_line opts agent raw_line st1;
               r = run_loop opts agent st2
           in ((raw_line, drop (length (stdout st1)) (stdout st2)) # fst r, snd r)))"
  by pat_completeness auto
termination
proof (relation "measure (\<lambda>(opts, agent, st). length (stdin st))")
  show "wf (measure (\<lambda>(opts, agent, st). length (stdin st)))" by simp
next
  fix opts :: host_options and agent :: agent and st :: host
    and x :: "nat \<times> string" and rest d raw_line st1 st2
  assume "stdin st = x # rest" and "(d, raw_line) = x"
    and "st1 = st\<lparr>stdin := rest, clock := clock st + d\<rparr>"
    and "st2 = handle_line opts agent raw_line st1"
  then show "((opts, agent, st2), (opts, agent, st)) \<in> measure (\<lambda>(opts, agent, st). length (stdin st))"
    using stdin_handle_line [of opts agent raw_line st1] by simp
qed

declare run_loop.simps [simp del]

definition run :: "host_options \<Rightarrow> agent \<Rightarrow> host \<Rightarrow> host" where
  "run opts agent st = snd (run_loop opts agent st)"

subsection \<open>Mock mode and result texts\<close>

text \<open>
  The default options with the mock flag set, and the \<^verbatim>\<open>text\<close> fields of the
  \<^verbatim>\<open>result\<close> messages among some messages.
\<close>

definition mock_options :: host_options where
  "mock_options = default_options\<lparr>mock := True\<rparr>"

definition result_texts :: "message list \<Rightarrow> string list" where
  "result_texts ms =
     concat (map (\<lambda>m. case m of Result session text elapsed_ms command \<Rightarrow> [text] | _ \<Rightarrow> []) ms)"

subsection \<open>Terminal messages\<close>




subsection \<open>The text extraction rule in the words of the specification\<close>

text \<open>
  The specification describes the extraction on an object as a list of candidate fields
  tried in order, the first extraction that is not empty winning, and on a list as the
  extractions of the elements that are not empty. These two notions are defined here as
  the specification words them; they are compared with \<open>extract_text\<close> below.
\<close>

definition first_nonempty :: "string option list \<Rightarrow> string option" where
  "first_nonempty rs = (case find truthy rs of None \<Rightarrow> None | Some r \<Rightarrow> r)"

definition nonempty_texts :: "string option list \<Rightarrow> string list" where
  "nonempty_texts rs = map the (filter truthy rs)"

section \<open>Properties\<close>

subsection \<open>Compaction of the parser's lists\<close>

lemma compact_loop_distinct_adj:
  "distinct_adj compact \<Longrightarrow> distinct_adj (compact_loop compact vs)"
proof (induction vs arbitrary: compact)
  case Nil
  then show ?case by simp
next
  case (Cons v vs)
  have "distinct_adj (compact @ [v])" if "compact = [] \<or> last compact \<noteq> v"
    using that Cons.prems by (auto simp: distinct_adj_append_iff)
  then show ?case
    using Cons by auto
qed

lemma compact_values_distinct_adj: "distinct_adj (compact_values vs)"
  by (simp add: compact_values_def compact_loop_distinct_adj)

lemma three_ping_lines:
  "snd (snd (parse_claude_output
     (''{\"type\":\"ping\"}'' @ [CHR 0x0A] @ ''{\"type\":\"ping\"}'' @ [CHR 0x0A]
      @ ''{\"type\":\"ping\"}''))) = [''claude:ping'']"
  by code_simp

text \<open>
  Claim C8. For every raw agent output, the lists \<^verbatim>\<open>partials\<close> and
  \<^verbatim>\<open>event_markers\<close> returned by \<^verbatim>\<open>parse_claude_output\<close> have no two
  neighbouring entries that are equal. Three equal event markers in a row are compacted to
  one, and the output made of three times the line \<^verbatim>\<open>{"type":"ping"}\<close> has the
  single event marker \<^verbatim>\<open>claude:ping\<close>.
\<close>

theorem parse_claude_output_compacted:
  "distinct_adj (fst (snd (parse_claude_output out)))
   \<and> distinct_adj (snd (snd (parse_claude_output out)))
   \<and> compact_values [''claude:'' @ name, ''claude:'' @ name, ''claude:'' @ name]
       = [''claude:'' @ name]
   \<and> snd (snd (parse_claude_output
        (''{\"type\":\"ping\"}'' @ [CHR 0x0A] @ ''{\"type\":\"ping\"}'' @ [CHR 0x0A]
         @ ''{\"type\":\"ping\"}''))) = [''claude:ping'']"
proof -
  have "distinct_adj (fst (snd (parse_claude_output out)))"
    by (simp add: parse_claude_output_def Let_def compact_values_distinct_adj)
  moreover have "distinct_adj (snd (snd (parse_claude_output out)))"
    by (simp add: parse_claude_output_def Let_def compact_values_distinct_adj)
  moreover have "compact_values [''claude:'' @ name, ''claude:'' @ name, ''claude:'' @ name]
       = [''claude:'' @ name]"
    by (simp add: compact_values_def)
  ultimately show ?thesis
    using three_ping_lines by simp
qed

subsection \<open>What each operation leaves unchanged\<close>

lemma emit_fields:
  "history (emit m st) = history st"
  "session_counter (emit m st) = session_counter st"
  "clock (emit m st) = clock st"
  "select_works (emit m st) = select_works st"
  "stdout (emit m st) = stdout st @ [m]"
  by (simp_all add: emit_def)

lemma readline_fields:
  "history (snd (readline st)) = history st"
  "session_counter (snd (readline st)) = session_counter st"
  "select_works (snd (readline st)) = select_works st"
  "stdout (snd (readline st)) = stdout st"
  by (simp_all add: readline_def split: list.splits prod.splits)

lemma select_stdin_fields:
  "history (snd (select_stdin t st)) = history st"
  "session_counter (snd (select_stdin t st)) = session_counter st"
  "select_works (snd (select_stdin t st)) = select_works st"
  "stdout (snd (select_stdin t st)) = stdout st"
  by (simp_all add: select_stdin_def split: list.splits prod.splits)

lemma read_line_with_timeout_fields:
  "history (snd (read_line_with_timeout t st)) = history st"
  "session_counter (snd (read_line_with_timeout t st)) = session_counter st"
  "select_works (snd (read_line_with_timeout t st)) = select_works st"
  "stdout (snd (read_line_with_timeout t st)) = stdout st"
  by (simp_all add: read_line_with_timeout_def Let_def readline_fields select_stdin_fields)

lemma snd_read_response:
  "snd (read_response opts dflt st)
   = snd (read_line_with_timeout (max 0 (response_timeout_secs opts)) st)"
  by (simp add: read_response_def Let_def split: option.splits json.splits)

lemma read_response_fields:
  "history (snd (read_response opts dflt st)) = history st"
  "session_counter (snd (read_response opts dflt st)) = session_counter st"
  "select_works (snd (read_response opts dflt st)) = select_works st"
  "stdout (snd (read_response opts dflt st)) = stdout st"
  by (simp_all add: snd_read_response read_line_with_timeout_fields)

lemma request_question_fields:
  "history (snd (request_question opts q c os st)) = history st"
  "session_counter (snd (request_question opts q c os st)) = session_counter st"
  "stdout (snd (request_question opts q c os st))
   = stdout st @ [Question (''session-'' @ str_nat (session_counter st) @ ''-question'') q c os]"
  by (simp_all add: request_question_def read_response_fields emit_fields)

lemma request_approval_fields:
  "history (snd (request_approval opts d r st)) = history st"
  "session_counter (snd (request_approval opts d r st)) = session_counter st"
  "stdout (snd (request_approval opts d r st))
   = stdout st @ [Approval (''session-'' @ str_nat (session_counter st) @ ''-approval'') d r]"
  by (simp_all add: request_approval_def Let_def read_response_fields emit_fields)

lemma invoke_claude_fields:
  "history (snd (invoke_claude opts agent p st)) = history st"
  "session_counter (snd (invoke_claude opts agent p st)) = session_counter st"
  "stdout (snd (invoke_claude opts agent p st)) = stdout st"
  by (simp_all add: invoke_claude_def Let_def split: process.splits)

lemma emit_markers_fields:
  "history (emit_markers session ms st) = history st"
  "session_counter (emit_markers session ms st) = session_counter st"
  "clock (emit_markers session ms st) = clock st"
  "stdout (emit_markers session ms st) = stdout st @ map (Progress session ''claude_event'') ms"
  by (induction ms arbitrary: st) (simp_all add: emit_fields)

text \<open>
  The partial messages written: the first chunks that are not empty, as many as the cap
  still allows.
\<close>

lemma emit_partials_fields:
  "history (emit_partials opts session sent cs st) = history st"
  "session_counter (emit_partials opts session sent cs st) = session_counter st"
  "clock (emit_partials opts session sent cs st) = clock st"
  "stdout (emit_partials opts session sent cs st)
   = stdout st @ map (Partial session)
       (take (nat (max 0 (max_partials opts)) - sent) (filter (\<lambda>c. c \<noteq> []) cs))"
proof (induction cs arbitrary: st sent)
  case Nil
  {
    case 1 show ?case by simp
  next
    case 2 show ?case by simp
  next
    case 3 show ?case by simp
  next
    case 4 show ?case by simp
  }
next
  case (Cons c cs)
  {
    case 1 show ?case by (simp add: Cons.IH emit_fields)
  next
    case 2 show ?case by (simp add: Cons.IH emit_fields)
  next
    case 3 show ?case by (simp add: Cons.IH emit_fields)
  next
    case 4
    have "nat (max 0 (max_partials opts)) - sent = Suc (nat (max 0 (max_partials opts)) - Suc sent)"
      if "\<not> max 0 (max_partials opts) \<le> int sent"
      using that by linarith
    moreover have "nat (max 0 (max_partials opts)) - sent = 0"
      if "max 0 (max_partials opts) \<le> int sent"
      using that by linarith
    ultimately show ?case
      by (simp add: Cons.IH emit_fields)
  }
qed

lemma record_history_fields:
  "session_counter (record_history opts p r st) = session_counter st"
  "stdout (record_history opts p r st) = stdout st"
  by (simp_all add: record_history_def Let_def)

subsection \<open>The bound of the history store\<close>

lemma length_last_n: "length (last_n n xs) = min n (length xs)"
  by (simp add: last_n_def)

lemma record_history_bound:
  assumes "carry_history opts"
  shows "int (length (history (record_history opts p r st))) \<le> max 1 (history_turns opts * 2)"
proof -
  have "int (min (nat (max 1 (history_turns opts * 2))) n) \<le> max 1 (history_turns opts * 2)" for n
    by linarith
  then show ?thesis
    using assms by (simp add: record_history_def Let_def length_last_n)
qed

lemma record_history_keeps_bound:
  "int (length (history st)) \<le> max 1 (history_turns opts * 2) \<Longrightarrow>
   int (length (history (record_history opts p r st))) \<le> max 1 (history_turns opts * 2)"
  using record_history_bound [of opts p r st] by (cases "carry_history opts") (simp_all add: record_history_def)

lemma compose_and_invoke_keeps_bound:
  assumes "int (length (history st)) \<le> max 1 (history_turns opts * 2)"
  shows "int (length (history (snd (compose_and_invoke opts agent session p c t note st))))
         \<le> max 1 (history_turns opts * 2)"
proof (cases "fst (invoke_claude opts agent (compose_prompt opts st p c note)
         (if mode opts = ''stream''
          then emit (Progress session ''invoke_claude'' ''Invoking Claude Code CLI'') st else st))")
  case (Inl exc)
  then show ?thesis
    using assms by (simp add: compose_and_invoke_def Let_def invoke_claude_fields emit_fields)
next
  case (Inr triple)
  then show ?thesis
    using assms
    by (auto simp: compose_and_invoke_def Let_def invoke_claude_fields emit_fields
        emit_markers_fields emit_partials_fields split: prod.splits
        intro!: record_history_keeps_bound)
qed

lemma ask_guidance_fields:
  "history (snd (ask_guidance opts session st)) = history st"
  "session_counter (snd (ask_guidance opts session st)) = session_counter st"
  by (simp_all add: ask_guidance_def Let_def request_question_fields emit_fields)

lemma process_prompt_unfold:
  "process_prompt opts agent session p c t st =
     (let st1 = (if mode opts = ''stream''
                 then emit (Progress session ''received_prompt''
                              ''Prompt received by claude_code middleware'') st
                 else st);
          asked = ask_guidance opts session st1;
          a = request_approval opts (''High-risk task detected: '' @ summarize p 160) ''high''
                (snd asked)
      in if mode opts = ''stream'' \<and> interactive opts \<and> looks_high_risk p
         then (if \<not> fst a
               then (None, emit (Error (Some session)
                                   ''Task rejected by supervisor approval handler'') (snd a))
               else compose_and_invoke opts agent session p c t (fst asked) (snd a))
         else compose_and_invoke opts agent session p c t (fst asked) (snd asked))"
  by (simp add: process_prompt_def Let_def)

lemma process_prompt_keeps_bound:
  assumes "int (length (history st)) \<le> max 1 (history_turns opts * 2)"
  shows "int (length (history (snd (process_prompt opts agent session p c t st))))
         \<le> max 1 (history_turns opts * 2)"
  unfolding process_prompt_unfold Let_def
  using assms
  by (auto simp: emit_fields ask_guidance_fields request_approval_fields
      intro!: compose_and_invoke_keeps_bound)

lemma handle_line_keeps_bound:
  assumes "int (length (history st)) \<le> max 1 (history_turns opts * 2)"
  shows "int (length (history (handle_line opts agent raw st))) \<le> max 1 (history_turns opts * 2)"
proof -
  have "int (length (history (snd (process_prompt opts agent session p c t
          (st\<lparr>session_counter := n\<rparr>))))) \<le> max 1 (history_turns opts * 2)" for session p c t n
    using assms by (intro process_prompt_keeps_bound) simp
  then show ?thesis
    using assms
    by (simp add: handle_line_def Let_def emit_fields split: option.splits prod.splits)
qed

lemma run_loop_keeps_bound:
  "int (length (history st)) \<le> max 1 (history_turns opts * 2) \<Longrightarrow>
   int (length (history (snd (run_loop opts agent st)))) \<le> max 1 (history_turns opts * 2)"
proof (induction opts agent st rule: run_loop.induct)
  case (1 opts agent st)
  show ?case
  proof (cases "stdin st")
    case Nil
    then show ?thesis
      using "1.prems" by (simp add: run_loop.simps [of opts agent st])
  next
    case (Cons x rest)
    obtain d raw_line where x: "x = (d, raw_line)"
      by (cases x)
    let ?st1 = "st\<lparr>stdin := rest, clock := clock st + d\<rparr>"
    have "int (length (history (handle_line opts agent raw_line ?st1)))
          \<le> max 1 (history_turns opts * 2)"
      using "1.prems" by (intro handle_line_keeps_bound) simp
    then have "int (length (history (snd (run_loop opts agent (handle_line opts agent raw_line ?st1)))))
          \<le> max 1 (history_turns opts * 2)"
      using "1.IH" [OF Cons x [symmetric] refl refl] by simp
    then show ?thesis
      by (simp add: run_loop.simps [of opts agent st] Cons x Let_def)
  qed
qed

lemma appends_keep_bound:
  "int (length (history st)) \<le> max 1 (history_turns opts * 2) \<Longrightarrow>
   int (length (history (foldl (\<lambda>s e. record_history opts (fst e) (snd e) s) st entries)))
   \<le> max 1 (history_turns opts * 2)"
  by (induction entries arbitrary: st) (simp_all add: record_history_keeps_bound)

text \<open>
  Claim C6. The history store of a host that starts empty never holds more than
  \<^verbatim>\<open>max(1, history_turns * 2)\<close> entries: neither after any sequence of appends by
  \<^verbatim>\<open>record_history\<close>, nor after \<^verbatim>\<open>run\<close> has handled any input with any agent. With
  history carrying enabled and \<^verbatim>\<open>history_turns = 3\<close> the store never holds more than
  6 entries.
\<close>

theorem history_never_exceeds_capacity:
  "int (length (history (foldl (\<lambda>s e. record_history opts (fst e) (snd e) s)
                           (initial_host lines t sel) entries)))
     \<le> max 1 (history_turns opts * 2)
   \<and> int (length (history (run opts agent (initial_host lines t sel))))
     \<le> max 1 (history_turns opts * 2)
   \<and> length (history (run (opts\<lparr>history_turns := 3, carry_history := True\<rparr>) agent
                         (initial_host lines t sel))) \<le> 6"
proof -
  have init: "int (length (history (initial_host lines t sel))) \<le> max 1 (history_turns o' * 2)" for o'
    by (simp add: initial_host_def)
  have "int (length (history (run (opts\<lparr>history_turns := 3, carry_history := True\<rparr>) agent
                         (initial_host lines t sel))))
        \<le> max 1 (history_turns (opts\<lparr>history_turns := 3, carry_history := True\<rparr>) * 2)"
    unfolding run_def by (rule run_loop_keeps_bound [OF init])
  then have "length (history (run (opts\<lparr>history_turns := 3, carry_history := True\<rparr>) agent
                         (initial_host lines t sel))) \<le> 6"
    by simp
  then show ?thesis
    using appends_keep_bound [OF init, where opts = opts and entries = entries]
      run_loop_keeps_bound [OF init, where opts = opts and agent = agent]
    by (simp add: run_def)
qed

subsection \<open>Text extraction\<close>

lemma first_nonempty_Cons:
  "first_nonempty (r # rs) = (if truthy r then r else first_nonempty rs)"
  by (simp add: first_nonempty_def)

lemma first_nonempty_append:
  "first_nonempty (rs @ rs') =
     (case first_nonempty rs of None \<Rightarrow> first_nonempty rs' | Some t \<Rightarrow> Some t)"
proof (induction rs)
  case Nil
  then show ?case by (simp add: first_nonempty_def)
next
  case (Cons r rs)
  then show ?case
    by (cases r) (simp_all add: first_nonempty_Cons truthy_def)
qed

lemma extract_keys_first_nonempty:
  "extract_keys d ks = first_nonempty (map (\<lambda>k. extract_text (dict_get d k)) ks)"
proof (induction ks)
  case Nil
  then show ?case by (simp add: first_nonempty_def)
next
  case (Cons k ks)
  then show ?case by (simp add: first_nonempty_Cons Let_def)
qed

lemma extract_items_nonempty_texts:
  "extract_items xs parts = parts @ nonempty_texts (map extract_text xs)"
  by (induction xs arbitrary: parts) (simp_all add: nonempty_texts_def Let_def)

text \<open>
  Claim C9. On an object, \<^verbatim>\<open>extract_text\<close> returns the first extraction that is not
  empty among those of the fields \<^verbatim>\<open>text\<close>, \<^verbatim>\<open>completion\<close>, \<^verbatim>\<open>delta\<close>,
  \<^verbatim>\<open>output\<close>, then \<^verbatim>\<open>message\<close>, then \<^verbatim>\<open>content\<close>, in this order, and none
  when there is no such extraction. On a list it extracts every element, joins the
  extractions that are not empty with a newline, and returns none when there is none.
\<close>

theorem extract_text_follows_specification:
  "extract_text (JObj d) =
     first_nonempty (map (\<lambda>k. extract_text (dict_get d k))
       [''text'', ''completion'', ''delta'', ''output'', ''message'', ''content''])
   \<and> extract_text (JArr xs) =
     (if nonempty_texts (map extract_text xs) = [] then None
      else Some (py_join [CHR 0x0A] (nonempty_texts (map extract_text xs))))"
proof -
  let ?f = "\<lambda>k. extract_text (dict_get d k)"
  have split: "[''text'', ''completion'', ''delta'', ''output'', ''message'', ''content'']
        = [''text'', ''completion'', ''delta'', ''output''] @ [''message'', ''content'']"
    by simp
  have tail: "first_nonempty (map ?f [''message'', ''content'']) =
      (if truthy (?f ''message'') then ?f ''message''
       else if truthy (?f ''content'') then ?f ''content'' else None)"
    by (simp add: first_nonempty_Cons first_nonempty_def)
  have "extract_text (JObj d) =
      (case first_nonempty (map ?f [''text'', ''completion'', ''delta'', ''output'']) of
         None \<Rightarrow> first_nonempty (map ?f [''message'', ''content''])
       | Some t \<Rightarrow> Some t)"
    unfolding tail
    by (simp only: extract_text.simps(2) extract_keys_first_nonempty Let_def split: option.splits)
  then have obj: "extract_text (JObj d) =
      first_nonempty (map ?f [''text'', ''completion'', ''delta'', ''output'', ''message'', ''content''])"
    unfolding split map_append first_nonempty_append .
  have arr: "extract_text (JArr xs) =
     (if nonempty_texts (map extract_text xs) = [] then None
      else Some (py_join [CHR 0x0A] (nonempty_texts (map extract_text xs))))"
    by (simp add: extract_items_nonempty_texts Let_def)
  from obj arr show ?thesis by simp
qed

subsection \<open>One terminal message for every prompt line\<close>


lemma run_loop_Nil: "stdin st = [] \<Longrightarrow> run_loop opts agent st = ([], st)"
  by (simp add: run_loop.simps [of opts agent st])

lemma run_loop_Cons:
  "stdin st = (d, raw_line) # rest \<Longrightarrow>
   run_loop opts agent st =
     ((raw_line,
       drop (length (stdout st))
         (stdout (handle_line opts agent raw_line (st\<lparr>stdin := rest, clock := clock st + d\<rparr>))))
      # fst (run_loop opts agent
              (handle_line opts agent raw_line (st\<lparr>stdin := rest, clock := clock st + d\<rparr>))),
      snd (run_loop opts agent
             (handle_line opts agent raw_line (st\<lparr>stdin := rest, clock := clock st + d\<rparr>))))"
  by (simp add: run_loop.simps [of opts agent st] Let_def)
















subsection \<open>Mock mode\<close>

lemma compose_prompt_history:
  "history st = history st' \<Longrightarrow> compose_prompt opts st p c sn = compose_prompt opts st' p c sn"
  by (simp add: compose_prompt_def)

lemma invoke_claude_mock:
  "mock opts \<Longrightarrow>
   invoke_claude opts agent p st = (Inr (mock_output p, [], [claude_command opts, ''<mock>'']), st)"
  by (simp add: invoke_claude_def)

lemma compose_and_invoke_mock:
  assumes "mock opts" and "mode opts \<noteq> ''stream''"
  shows "compose_and_invoke opts agent session p c t sn st =
     (None, record_history opts p
              (fst (parse_claude_output (mock_output (compose_prompt opts st p c sn))))
              (emit (Result session
                       (fst (parse_claude_output (mock_output (compose_prompt opts st p c sn))))
                       (int (clock st) - int t) (claude_command opts)) st))"
  using assms by (simp add: compose_and_invoke_def Let_def invoke_claude_mock)

lemma process_prompt_oneshot:
  assumes "mode opts \<noteq> ''stream''"
  shows "process_prompt opts agent session p c t st
         = compose_and_invoke opts agent session p c t [] st"
  using assms by (simp add: process_prompt_unfold Let_def ask_guidance_def)

lemma handle_line_mock_oneshot:
  assumes "mock opts" and "mode opts \<noteq> ''stream''"
    and "derive_prompt raw = Some (p, c)" and "p \<noteq> []"
  shows "handle_line opts agent raw st =
     record_history opts p
       (fst (parse_claude_output (mock_output (compose_prompt opts st p c []))))
       (emit (Result (session_counter st + 1)
                (fst (parse_claude_output (mock_output (compose_prompt opts st p c []))))
                0 (claude_command opts))
          (st\<lparr>session_counter := session_counter st + 1\<rparr>))"
proof -
  have "compose_prompt opts (st\<lparr>session_counter := session_counter st + 1\<rparr>) p c []
        = compose_prompt opts st p c []"
    by (rule compose_prompt_history) simp
  then show ?thesis
    using assms
    by (simp add: handle_line_def Let_def process_prompt_oneshot compose_and_invoke_mock)
qed

lemma scenario_line:
  "derive_prompt ''{\"prompt\":\"add a health check endpoint\"}''
   = Some (''add a health check endpoint'', JNull)"
  by code_simp

lemma scenario_text:
  "fst (parse_claude_output (mock_output (''Task:'' @ [CHR 0x0A] @ ''add a health check endpoint'')))
   = ''Planning implementation for task: Task: add a health check endpoint'' @ [CHR 0x0A]
     @ ''Would update source files and add/adjust tests.'' @ [CHR 0x0A]
     @ ''Mock Claude Code run completed successfully.''"
  by code_simp

lemma mock_options_fields:
  "mock mock_options" "mode mock_options \<noteq> ''stream''" "carry_history mock_options"
  "history_turns mock_options = 3" "claude_command mock_options = ''claude''"
  by (simp_all add: mock_options_def default_options_def)

lemma scenario_stdout:
  "stdout (run mock_options agent
      (initial_host [(d, ''{\"prompt\":\"add a health check endpoint\"}'')] t sel))
   = [Result 1
        (''Planning implementation for task: Task: add a health check endpoint'' @ [CHR 0x0A]
         @ ''Would update source files and add/adjust tests.'' @ [CHR 0x0A]
         @ ''Mock Claude Code run completed successfully.'')
        0 ''claude'']"
proof -
  let ?line = "''{\"prompt\":\"add a health check endpoint\"}''"
  let ?st = "initial_host [(d, ?line)] t sel"
  let ?st1 = "?st\<lparr>stdin := [], clock := clock ?st + d\<rparr>"
  have 1: "stdin ?st = [(d, ?line)]"
    by (simp add: initial_host_def)
  have cp: "compose_prompt mock_options ?st1 ''add a health check endpoint'' JNull []
            = ''Task:'' @ [CHR 0x0A] @ ''add a health check endpoint''"
    by (simp add: compose_prompt_def initial_host_def py_strip_def)
  have hl: "stdout (handle_line mock_options agent ?line ?st1)
            = [Result 1
        (''Planning implementation for task: Task: add a health check endpoint'' @ [CHR 0x0A]
         @ ''Would update source files and add/adjust tests.'' @ [CHR 0x0A]
         @ ''Mock Claude Code run completed successfully.'')
        0 ''claude'']"
    unfolding handle_line_mock_oneshot [OF mock_options_fields(1,2) scenario_line, simplified]
      cp scenario_text
    by (simp add: record_history_fields emit_fields mock_options_fields initial_host_def)
  have "stdin (handle_line mock_options agent ?line ?st1) = []"
    using stdin_handle_line [of mock_options agent ?line ?st1] by simp
  then have "run_loop mock_options agent (handle_line mock_options agent ?line ?st1)
             = ([], handle_line mock_options agent ?line ?st1)"
    by (rule run_loop_Nil)
  then show ?thesis
    using run_loop_Cons [OF 1, of mock_options agent] hl by (simp add: run_def)
qed

text \<open>
  Claim C2, as the code has it. In mock mode with the default options (mode
  \<^verbatim>\<open>oneshot\<close>), for the single input line
  \<^verbatim>\<open>{"prompt":"add a health check endpoint"}\<close> the host writes exactly one message, a
  \<^verbatim>\<open>result\<close> of session 1, and its text is the three mock event texts joined by
  newlines, the first of them being
  \<^verbatim>\<open>Planning implementation for task: Task: add a health check endpoint\<close>: the mock
  summarises the composed prompt, which starts with the section header \<^verbatim>\<open>Task:\<close>.
\<close>

theorem mock_oneshot_scenario:
  "stdout (run mock_options agent
      (initial_host [(d, ''{\"prompt\":\"add a health check endpoint\"}'')] t sel))
   = [Result 1
        (''Planning implementation for task: Task: add a health check endpoint'' @ [CHR 0x0A]
         @ ''Would update source files and add/adjust tests.'' @ [CHR 0x0A]
         @ ''Mock Claude Code run completed successfully.'')
        0 ''claude'']"
  by (rule scenario_stdout)

text \<open>
  The text the claim states, without \<^verbatim>\<open>Task:\<close> in the first line, is not the text
  of the \<^verbatim>\<open>result\<close> message.
\<close>

theorem mock_oneshot_scenario_counterexample:
  "result_texts (stdout (run mock_options (\<lambda>argv inp. NotFound)
      (initial_host [(0, ''{\"prompt\":\"add a health check endpoint\"}'')] 0 True)))
   = [''Planning implementation for task: Task: add a health check endpoint'' @ [CHR 0x0A]
      @ ''Would update source files and add/adjust tests.'' @ [CHR 0x0A]
      @ ''Mock Claude Code run completed successfully.'']
   \<and> ''Planning implementation for task: Task: add a health check endpoint'' @ [CHR 0x0A]
      @ ''Would update source files and add/adjust tests.'' @ [CHR 0x0A]
      @ ''Mock Claude Code run completed successfully.''
     \<noteq> ''Planning implementation for task: add a health check endpoint'' @ [CHR 0x0A]
      @ ''Would update source files and add/adjust tests.'' @ [CHR 0x0A]
      @ ''Mock Claude Code run completed successfully.''"
  by (simp add: scenario_stdout result_texts_def)


















subsection \<open>Empty prompts and session ids\<close>












subsection \<open>History entries\<close>




lemma compose_and_invoke_unfold:
  "compose_and_invoke opts agent session p c t sn st =
      (case fst (invoke_claude opts agent (compose_prompt opts st p c sn)
                   (if mode opts = ''stream''
                    then emit (Progress session ''invoke_claude'' ''Invoking Claude Code CLI'') st
                    else st)) of
         Inl exc \<Rightarrow> (Some exc, snd (invoke_claude opts agent (compose_prompt opts st p c sn)
                   (if mode opts = ''stream''
                    then emit (Progress session ''invoke_claude'' ''Invoking Claude Code CLI'') st
                    else st)))
       | Inr (raw_output, stderr_output, argv) \<Rightarrow>
           (let parsed = parse_claude_output raw_output;
                st2 = (if mode opts = ''stream''
                       then emit_partials opts session 0 (fst (snd parsed))
                              (emit_markers session (snd (snd parsed))
                                 (snd (invoke_claude opts agent (compose_prompt opts st p c sn)
                   (if mode opts = ''stream''
                    then emit (Progress session ''invoke_claude'' ''Invoking Claude Code CLI'') st
                    else st))))
                       else snd (invoke_claude opts agent (compose_prompt opts st p c sn)
                   (if mode opts = ''stream''
                    then emit (Progress session ''invoke_claude'' ''Invoking Claude Code CLI'') st
                    else st)))
            in (None, record_history opts p (fst parsed)
                  (emit (Result session (fst parsed) (int (clock st2) - int t)
                     (if argv \<noteq> [] then hd argv else claude_command opts)) st2))))"
  unfolding compose_and_invoke_def Let_def ..

lemma compose_and_invoke_raises:
  assumes "fst (compose_and_invoke opts agent session p c t sn st) = Some exc"
  shows "history (snd (compose_and_invoke opts agent session p c t sn st)) = history st"
  using assms
  by (auto simp: compose_and_invoke_unfold Let_def invoke_claude_fields emit_fields
      split: sum.splits prod.splits)









end
